theory Spec2Isabelle
  imports Main
begin

section \<open>Values exchanged by the handlers\<close>

text \<open>
  The Lambda handlers of \<^verbatim>\<open>minecraft_server_stack.py\<close> receive and return Python
  dictionaries that travel as JSON. A dictionary is an association list in insertion
  order with unique keys; Python's exceptions are values of \<open>error\<close> (a KeyError for a
  key that is not a string is \<open>KeyErrorNonString\<close>).
\<close>

datatype json =
    JNull
  | JBool bool
  | JInt int
  | JStr string
  | JArr "json list"
  | JObj "(string \<times> json) list"

datatype error =
    KeyError string
  | IndexError
  | TypeError
  | AttributeError
  | WaiterError string
  | ParamValidationError
  | KeyErrorNonString json

text \<open>\<^verbatim>\<open>d[k]\<close>: a missing key raises KeyError, a value that is not subscriptable by a
  string raises TypeError.\<close>

fun subscript :: "json \<Rightarrow> string \<Rightarrow> error + json" where
  "subscript (JObj kvs) k = (case map_of kvs k of None \<Rightarrow> Inl (KeyError k) | Some v \<Rightarrow> Inr v)"
| "subscript _ k = Inl TypeError"

text \<open>\<^verbatim>\<open>d.get(k, default)\<close>: only a dictionary has the method.\<close>

fun dict_get :: "json \<Rightarrow> string \<Rightarrow> json \<Rightarrow> error + json" where
  "dict_get (JObj kvs) k d = (case map_of kvs k of None \<Rightarrow> Inr d | Some v \<Rightarrow> Inr v)"
| "dict_get _ k d = Inl AttributeError"

text \<open>Python's truth value of a JSON value (\<^verbatim>\<open>if x:\<close>, \<^verbatim>\<open>not x\<close>).\<close>

fun truthy :: "json \<Rightarrow> bool" where
  "truthy JNull = False"
| "truthy (JBool b) = b"
| "truthy (JInt i) = (i \<noteq> 0)"
| "truthy (JStr s) = (s \<noteq> [])"
| "truthy (JArr xs) = (xs \<noteq> [])"
| "truthy (JObj kvs) = (kvs \<noteq> [])"

text \<open>\<^verbatim>\<open>d[k] = v\<close>: an existing key keeps its position, a new key goes last.\<close>

fun dict_set :: "(string \<times> json) list \<Rightarrow> string \<Rightarrow> json \<Rightarrow> (string \<times> json) list" where
  "dict_set [] k v = [(k, v)]"
| "dict_set ((k', v') # kvs) k v = (if k' = k then (k, v) # kvs else (k', v') # dict_set kvs k v)"

section \<open>The cloud resources the handlers act on\<close>

text \<open>
  What \<^verbatim>\<open>ecs.describe_tasks\<close> answers: the tasks with their last status and their
  attachments, and the failures with their reasons. \<^verbatim>\<open>task.get('attachments', [])\<close>
  and \<^verbatim>\<open>attachment.get('details', [])\<close> read optional keys, so both are options here.
\<close>

record attachment =
  details :: "(string \<times> string) list option"

record task =
  lastStatus :: string
  attachments :: "attachment list option"

record describe_tasks_response =
  tasks :: "task list"
  failures :: "string list"

text \<open>What \<^verbatim>\<open>ec2.describe_network_interfaces\<close> answers for one interface: the optional
  \<^verbatim>\<open>Association\<close> with its optional \<^verbatim>\<open>PublicIp\<close>.\<close>

record network_interface =
  Association :: "string option option"

record datetime =
  year :: nat
  month :: nat
  day :: nat
  hour :: nat
  minute :: nat
  second :: nat
  microsecond :: nat

text \<open>
  The state outside the handlers: the desired count of the ECS service, the answer to the
  k-th \<^verbatim>\<open>DescribeTasks\<close> call of an invocation, the network interfaces by identifier, the
  clock, the environment of the DNS function and the record sets of the hosted zone.
\<close>

record world =
  desiredCount :: int
  describe_tasks :: "nat \<Rightarrow> describe_tasks_response"
  describe_network_interfaces :: "string \<Rightarrow> network_interface list"
  utcnow :: datetime
  dns_enabled :: string
  dns_hosted_zone_id :: string
  dns_domain_name :: string
  record_sets :: "(string \<times> json) list"
  next_change_id :: string

section \<open>Scale controller: the start and stop functions\<close>

text \<open>
  \<^verbatim>\<open>StartTaskFunction\<close> and \<^verbatim>\<open>StopTaskFunction\<close>: \<^verbatim>\<open>ecs.update_service\<close> with
  \<^verbatim>\<open>desiredCount=1\<close> respectively \<^verbatim>\<open>desiredCount=0\<close>, whatever the event holds.
\<close>

definition update_service :: "int \<Rightarrow> world \<Rightarrow> world" where
  "update_service n w = w\<lparr>desiredCount := n\<rparr>"

definition start_handler :: "world \<Rightarrow> json \<Rightarrow> world \<times> (error + json)" where
  "start_handler w event =
     (update_service 1 w,
      Inr (JObj [(''statusCode'', JInt 200), (''message'', JStr ''Server started'')]))"

definition stop_handler :: "world \<Rightarrow> json \<Rightarrow> world \<times> (error + json)" where
  "stop_handler w event =
     (update_service 0 w,
      Inr (JObj [(''statusCode'', JInt 200), (''message'', JStr ''Server stopped'')]))"

datatype scale_op = Start | Stop

fun scale :: "scale_op \<times> json \<Rightarrow> world \<Rightarrow> world \<times> (error + json)" where
  "scale (Start, event) w = start_handler w event"
| "scale (Stop, event) w = stop_handler w event"

text \<open>The worlds a sequence of scale operations goes through, the starting one first.\<close>

fun scale_trace :: "world \<Rightarrow> (scale_op \<times> json) list \<Rightarrow> world list" where
  "scale_trace w [] = [w]"
| "scale_trace w (c # cs) = w # scale_trace (fst (scale c w)) cs"

text \<open>No operation of the sequence raised.\<close>

fun scale_returns :: "world \<Rightarrow> (scale_op \<times> json) list \<Rightarrow> bool" where
  "scale_returns w [] = True"
| "scale_returns w (c # cs) = (isl (snd (scale c w)) = False \<and> scale_returns (fst (scale c w)) cs)"

section \<open>Rendering values as text\<close>

text \<open>
  \<^verbatim>\<open>str(n)\<close> for a natural number, and \<^verbatim>\<open>json.dumps\<close> with Python's defaults: the
  separators \<^verbatim>\<open>", "\<close> and \<^verbatim>\<open>": "\<close>, and every character outside the printable
  ASCII range, the double quote and the backslash escaped. A \<open>char\<close> is read as the code
  point of its number.
\<close>

fun dec :: "nat \<Rightarrow> string" where
  "dec n = (if n < 10 then [''0123456789'' ! n]
            else dec (n div 10) @ [''0123456789'' ! (n mod 10)])"

definition str_int :: "int \<Rightarrow> string" where
  "str_int i = (if i < 0 then ''-'' @ dec (nat (- i)) else dec (nat i))"

definition hex2 :: "nat \<Rightarrow> string" where
  "hex2 n = [''0123456789abcdef'' ! (n div 16), ''0123456789abcdef'' ! (n mod 16)]"

definition escape_char :: "char \<Rightarrow> string" where
  "escape_char c =
     (if c = CHR 0x22 then [CHR 0x5C, CHR 0x22]
      else if c = CHR 0x5C then [CHR 0x5C, CHR 0x5C]
      else if c = CHR 0x0A then [CHR 0x5C, CHR ''n'']
      else if c = CHR 0x0D then [CHR 0x5C, CHR ''r'']
      else if c = CHR 0x09 then [CHR 0x5C, CHR ''t'']
      else if c = CHR 0x08 then [CHR 0x5C, CHR ''b'']
      else if c = CHR 0x0C then [CHR 0x5C, CHR ''f'']
      else if 32 \<le> (of_char c :: nat) \<and> (of_char c :: nat) \<le> 126 then [c]
      else [CHR 0x5C, CHR ''u'', CHR ''0'', CHR ''0''] @ hex2 (of_char c))"

definition dumps_str :: "string \<Rightarrow> string" where
  "dumps_str s = [CHR 0x22] @ concat (map escape_char s) @ [CHR 0x22]"

fun json_dumps :: "json \<Rightarrow> string"
  and dumps_items :: "json list \<Rightarrow> string"
  and dumps_members :: "(string \<times> json) list \<Rightarrow> string" where
  "json_dumps JNull = ''null''"
| "json_dumps (JBool b) = (if b then ''true'' else ''false'')"
| "json_dumps (JInt i) = str_int i"
| "json_dumps (JStr s) = dumps_str s"
| "json_dumps (JArr xs) = ''['' @ dumps_items xs @ '']''"
| "json_dumps (JObj kvs) = ''{'' @ dumps_members kvs @ ''}''"
| "dumps_items [] = []"
| "dumps_items [x] = json_dumps x"
| "dumps_items (x # y # ys) = json_dumps x @ '', '' @ dumps_items (y # ys)"
| "dumps_members [] = []"
| "dumps_members [(k, v)] = dumps_str k @ '': '' @ json_dumps v"
| "dumps_members ((k, v) # m # ms) =
     dumps_str k @ '': '' @ json_dumps v @ '', '' @ dumps_members (m # ms)"

section \<open>Control API: the function behind the HTTP gateway\<close>

text \<open>
  The names the stack writes into the inline code of \<^verbatim>\<open>ApiHandler\<close>: the cluster and
  the two state machines.
\<close>

record deployment =
  cluster_name :: string
  start_state_machine_arn :: string
  stop_state_machine_arn :: string

text \<open>
  The event of the HTTP gateway for the route \<^verbatim>\<open>/{action}\<close>: the path parameters are
  a dictionary of strings, and the key is left out when there are none.
\<close>

record api_event =
  pathParameters :: "(string \<times> string) list option"

record api_response =
  statusCode :: int
  body :: string

text \<open>
  What the two clients of the handler answer: \<^verbatim>\<open>ecs.list_tasks\<close> with the optional
  \<^verbatim>\<open>taskArns\<close> of its answer, and \<^verbatim>\<open>sfn.start_execution\<close> with the
  \<^verbatim>\<open>executionArn\<close> it gives for a state machine and an input. The calls the handler
  makes are recorded in order.
\<close>

record control_plane =
  list_tasks :: "string list option"
  start_execution :: "string \<Rightarrow> string \<Rightarrow> string"

datatype api_call =
    ListTasks string string
  | StartExecution string string

text \<open>\<^verbatim>\<open>event.get('pathParameters', {}).get('action', '')\<close>\<close>

definition action_of :: "api_event \<Rightarrow> string" where
  "action_of event =
     (case pathParameters event of
        None \<Rightarrow> ''''
      | Some ps \<Rightarrow> (case map_of ps ''action'' of None \<Rightarrow> '''' | Some a \<Rightarrow> a))"

text \<open>
  The task identifiers the handler works with: \<^verbatim>\<open>not tasks.get('taskArns')\<close> holds when
  the key is missing or the list is empty, and \<^verbatim>\<open>tasks['taskArns'][0]\<close> is read only
  when it does not hold.
\<close>

definition task_arns :: "control_plane \<Rightarrow> string list" where
  "task_arns cp = (case list_tasks cp of None \<Rightarrow> [] | Some arns \<Rightarrow> arns)"

definition api_handler ::
  "deployment \<Rightarrow> control_plane \<Rightarrow> api_event \<Rightarrow> api_call list \<times> api_response" where
  "api_handler d cp event =
     (let action = action_of event in
      if action = ''start'' then
        (let input = json_dumps (JObj []);
             executionArn = start_execution cp (start_state_machine_arn d) input
         in ([StartExecution (start_state_machine_arn d) input],
             \<lparr>statusCode = 200,
              body = json_dumps (JObj [(''message'', JStr ''Server starting''),
                                       (''executionArn'', JStr executionArn)])\<rparr>))
      else if action = ''stop'' then
        (case task_arns cp of
           [] \<Rightarrow>
             ([ListTasks (cluster_name d) ''RUNNING''],
              \<lparr>statusCode = 404,
               body = json_dumps (JObj [(''error'', JStr ''No running server found'')])\<rparr>)
         | task_arn # _ \<Rightarrow>
             (let input = json_dumps (JObj [(''cluster'', JStr (cluster_name d)),
                                            (''taskArn'', JStr task_arn)]);
                  executionArn = start_execution cp (stop_state_machine_arn d) input
              in ([ListTasks (cluster_name d) ''RUNNING'',
                   StartExecution (stop_state_machine_arn d) input],
                  \<lparr>statusCode = 200,
                   body = json_dumps (JObj [(''message'', JStr ''Server stopping''),
                                            (''executionArn'', JStr executionArn)])\<rparr>)))
      else if action = ''status'' then
        (case task_arns cp of
           [] \<Rightarrow>
             ([ListTasks (cluster_name d) ''RUNNING''],
              \<lparr>statusCode = 200,
               body = json_dumps (JObj [(''status'', JStr ''stopped'')])\<rparr>)
         | task_arn # rest \<Rightarrow>
             ([ListTasks (cluster_name d) ''RUNNING''],
              \<lparr>statusCode = 200,
               body = json_dumps (JObj [(''status'', JStr ''running''),
                                        (''taskCount'', JInt (int (length (task_arn # rest))))])\<rparr>))
      else
        ([],
         \<lparr>statusCode = 400,
          body = json_dumps (JObj [(''error'', JStr ''Invalid action. Use /start, /stop, or /status'')])\<rparr>))"

section \<open>Address resolver: the function that waits for the task and reads its address\<close>

text \<open>
  The \<^verbatim>\<open>tasks_running\<close> waiter of the ECS client polls \<^verbatim>\<open>DescribeTasks\<close>. Its
  acceptors, in order: a task whose last status is \<^verbatim>\<open>STOPPED\<close> is a failure, a failure
  whose reason is \<^verbatim>\<open>MISSING\<close> is a failure, and a non-empty list of tasks that are all
  \<^verbatim>\<open>RUNNING\<close> is the success. A failure carries the explanation of the acceptor that
  matched.
\<close>

datatype waiter_state = Success | Failure string

definition tasks_running_acceptors :: "describe_tasks_response \<Rightarrow> waiter_state option" where
  "tasks_running_acceptors response =
     (if list_ex (\<lambda>t. lastStatus t = ''STOPPED'') (tasks response) then
        Some (Failure ''For expression \"tasks[].lastStatus\" we matched expected path: \"STOPPED\" at least once'')
      else if list_ex (\<lambda>r. r = ''MISSING'') (failures response) then
        Some (Failure ''For expression \"failures[].reason\" we matched expected path: \"MISSING\" at least once'')
      else if tasks response \<noteq> [] \<and> list_all (\<lambda>t. lastStatus t = ''RUNNING'') (tasks response)
        then Some Success
      else None)"

text \<open>
  The waiter's loop: call, count the attempt, stop on a success or a failure, give up when
  the attempts reach \<open>max_attempts\<close>, sleep \<open>delay\<close> seconds otherwise. It returns the
  number of calls made, the seconds slept and the outcome.
\<close>

function waiter_wait ::
  "nat \<Rightarrow> nat \<Rightarrow> (nat \<Rightarrow> describe_tasks_response) \<Rightarrow> nat \<Rightarrow> nat \<Rightarrow> nat \<times> nat \<times> (error + unit)" where
  "waiter_wait delay max_attempts operation num_attempts slept =
     (case tasks_running_acceptors (operation num_attempts) of
        Some Success \<Rightarrow> (num_attempts + 1, slept, Inr ())
      | Some (Failure explanation) \<Rightarrow>
          (num_attempts + 1, slept,
           Inl (WaiterError (''Waiter encountered a terminal failure state: '' @ explanation)))
      | None \<Rightarrow>
          (if num_attempts + 1 \<ge> max_attempts
           then (num_attempts + 1, slept, Inl (WaiterError ''Max attempts exceeded''))
           else waiter_wait delay max_attempts operation (num_attempts + 1) (slept + delay)))"
  by pat_completeness auto
termination
  by (relation "measure (\<lambda>(delay, max_attempts, operation, num_attempts, slept).
                   max_attempts - num_attempts)") auto

text \<open>The two loops over the attachments and their details; \<^verbatim>\<open>break\<close> leaves the inner
  loop only, so a later attachment overwrites an earlier one.\<close>

fun scan_details :: "(string \<times> string) list \<Rightarrow> string option \<Rightarrow> string option" where
  "scan_details [] eni_id = eni_id"
| "scan_details ((name, val) # ds) eni_id =
     (if name = ''networkInterfaceId'' then Some val else scan_details ds eni_id)"

fun scan_attachments :: "attachment list \<Rightarrow> string option \<Rightarrow> string option" where
  "scan_attachments [] eni_id = eni_id"
| "scan_attachments (a # as) eni_id =
     scan_attachments as (scan_details (case details a of None \<Rightarrow> [] | Some ds \<Rightarrow> ds) eni_id)"

definition find_eni :: "task \<Rightarrow> string option" where
  "find_eni t = scan_attachments (case attachments t of None \<Rightarrow> [] | Some as \<Rightarrow> as) None"

text \<open>\<^verbatim>\<open>.get('Association', {}).get('PublicIp', '')\<close>\<close>

definition public_ip_of :: "network_interface \<Rightarrow> string" where
  "public_ip_of ni =
     (case Association ni of None \<Rightarrow> '''' | Some a \<Rightarrow> (case a of None \<Rightarrow> '''' | Some ip \<Rightarrow> ip))"

text \<open>The part of the handler after the waiter: \<open>n\<close> calls were made so far.\<close>

definition read_address :: "world \<Rightarrow> json \<Rightarrow> nat \<Rightarrow> error + json" where
  "read_address w task_arn n =
     (case tasks (describe_tasks w n) of
        [] \<Rightarrow> Inl IndexError
      | t # _ \<Rightarrow>
          (case find_eni t of
             None \<Rightarrow> Inr (JObj [(''statusCode'', JInt 500), (''error'', JStr ''No IP found'')])
           | Some eni_id \<Rightarrow>
               if eni_id = [] then
                 Inr (JObj [(''statusCode'', JInt 500), (''error'', JStr ''No IP found'')])
               else
                 (case describe_network_interfaces w eni_id of
                    [] \<Rightarrow> Inl IndexError
                  | ni # _ \<Rightarrow>
                      Inr (JObj [(''statusCode'', JInt 200),
                                 (''publicIp'', JStr (public_ip_of ni)),
                                 (''taskArn'', task_arn)]))))"

text \<open>
  \<^verbatim>\<open>GetIPFunction\<close>, with \<^verbatim>\<open>WaiterConfig={'Delay': 6, 'MaxAttempts': 20}\<close>. The ECS
  client validates the parameters of a call before it sends anything: the cluster and
  the task identifier must be strings, or \<^verbatim>\<open>waiter.wait\<close> raises at once. The handler
  changes nothing in the world. The time limit of the function (30 seconds) is not part
  of this definition: it can only end an invocation earlier, as a failure.
\<close>

definition get_ip_handler :: "world \<Rightarrow> json \<Rightarrow> world \<times> (error + json)" where
  "get_ip_handler w event =
     (case subscript event ''cluster'' of
        Inl e \<Rightarrow> (w, Inl e)
      | Inr cluster \<Rightarrow>
          (case subscript event ''taskArn'' of
             Inl e \<Rightarrow> (w, Inl e)
           | Inr task_arn \<Rightarrow>
               (case (cluster, task_arn) of
                  (JStr c, JStr a) \<Rightarrow>
                    (case waiter_wait 6 20 (describe_tasks w) 0 0 of
                       (n, slept, Inl e) \<Rightarrow> (w, Inl e)
                     | (n, slept, Inr _) \<Rightarrow> (w, read_address w task_arn n))
                | _ \<Rightarrow> (w, Inl ParamValidationError))))"

section \<open>Snapshot trigger: the backup function\<close>

text \<open>
  \<^verbatim>\<open>datetime.isoformat()\<close>: the fields zero-padded to a fixed width, the microseconds
  left out when they are zero.
\<close>

definition zpad :: "nat \<Rightarrow> nat \<Rightarrow> string" where
  "zpad k n = replicate (k - length (dec n)) (CHR ''0'') @ dec n"

definition isoformat :: "datetime \<Rightarrow> string" where
  "isoformat t =
     zpad 4 (year t) @ ''-'' @ zpad 2 (month t) @ ''-'' @ zpad 2 (day t) @ ''T'' @
     zpad 2 (hour t) @ '':'' @ zpad 2 (minute t) @ '':'' @ zpad 2 (second t) @
     (if microsecond t = 0 then [] else ''.'' @ zpad 6 (microsecond t))"

text \<open>\<^verbatim>\<open>f"backups/world-{timestamp}.tar.gz"\<close>\<close>

definition backup_key_of :: "string \<Rightarrow> string" where
  "backup_key_of timestamp = ''backups/world-'' @ timestamp @ ''.tar.gz''"

text \<open>\<^verbatim>\<open>BackupFunction\<close>: it reads the two keys of the event and the clock, and transfers
  nothing.\<close>

definition backup_handler :: "world \<Rightarrow> json \<Rightarrow> world \<times> (error + json)" where
  "backup_handler w event =
     (case subscript event ''cluster'' of
        Inl e \<Rightarrow> (w, Inl e)
      | Inr cluster \<Rightarrow>
          (case subscript event ''taskArn'' of
             Inl e \<Rightarrow> (w, Inl e)
           | Inr task_arn \<Rightarrow>
               (let timestamp = isoformat (utcnow w);
                    backup_key = backup_key_of timestamp
                in (w, Inr (JObj [(''statusCode'', JInt 200),
                                  (''backupKey'', JStr backup_key),
                                  (''timestamp'', JStr timestamp)])))))"

text \<open>
  The range of the fields of a Python \<^verbatim>\<open>datetime\<close> (the day is bounded by 31 here, the
  calendar gives a smaller bound for some months).
\<close>

definition valid_datetime :: "datetime \<Rightarrow> bool" where
  "valid_datetime t =
     (1 \<le> year t \<and> year t \<le> 9999 \<and> 1 \<le> month t \<and> month t \<le> 12 \<and>
      1 \<le> day t \<and> day t \<le> 31 \<and> hour t < 24 \<and> minute t < 60 \<and> second t < 60 \<and>
      microsecond t < 1000000)"

text \<open>
  Reading a key back, as the specification words it: strip the fixed prefix and the fixed
  suffix, then parse the ISO-8601 text into its fields.
\<close>

definition strip_key :: "string \<Rightarrow> string option" where
  "strip_key k =
     (if length ''backups/world-'' + length ''.tar.gz'' \<le> length k
         \<and> take (length ''backups/world-'') k = ''backups/world-''
         \<and> drop (length k - length ''.tar.gz'') k = ''.tar.gz''
      then Some (take (length k - length ''backups/world-'' - length ''.tar.gz'')
                   (drop (length ''backups/world-'') k))
      else None)"

definition is_digit :: "char \<Rightarrow> bool" where
  "is_digit c = (48 \<le> (of_char c :: nat) \<and> (of_char c :: nat) \<le> 57)"

definition undec :: "string \<Rightarrow> nat" where
  "undec s = foldl (\<lambda>a c. 10 * a + ((of_char c :: nat) - 48)) 0 s"

definition read_digits :: "nat \<Rightarrow> string \<Rightarrow> (nat \<times> string) option" where
  "read_digits k s =
     (if k \<le> length s \<and> list_all is_digit (take k s) then Some (undec (take k s), drop k s)
      else None)"

definition read_char :: "char \<Rightarrow> string \<Rightarrow> string option" where
  "read_char c s = (case s of [] \<Rightarrow> None | x # xs \<Rightarrow> if x = c then Some xs else None)"

definition read_fraction :: "string \<Rightarrow> (nat \<times> string) option" where
  "read_fraction s =
     (if s = [] then Some (0, [])
      else Option.bind (read_char (CHR ''.'') s) (read_digits 6))"

definition fromisoformat :: "string \<Rightarrow> datetime option" where
  "fromisoformat s0 =
     Option.bind (read_digits 4 s0) (\<lambda>(y, s1).
     Option.bind (read_char (CHR ''-'') s1) (\<lambda>s2.
     Option.bind (read_digits 2 s2) (\<lambda>(mo, s3).
     Option.bind (read_char (CHR ''-'') s3) (\<lambda>s4.
     Option.bind (read_digits 2 s4) (\<lambda>(d, s5).
     Option.bind (read_char (CHR ''T'') s5) (\<lambda>s6.
     Option.bind (read_digits 2 s6) (\<lambda>(h, s7).
     Option.bind (read_char (CHR '':'') s7) (\<lambda>s8.
     Option.bind (read_digits 2 s8) (\<lambda>(mi, s9).
     Option.bind (read_char (CHR '':'') s9) (\<lambda>s10.
     Option.bind (read_digits 2 s10) (\<lambda>(sec, s11).
     Option.bind (read_fraction s11) (\<lambda>(us, s12).
       if s12 = [] then
         Some \<lparr>year = y, month = mo, day = d, hour = h, minute = mi, second = sec,
               microsecond = us\<rparr>
       else None))))))))))))"

section \<open>Name resolution updater: the DNS function\<close>

text \<open>
  \<^verbatim>\<open>UpdateDNSFunction\<close>. The stack sets \<^verbatim>\<open>ENABLED\<close>, \<^verbatim>\<open>HOSTED_ZONE_ID\<close> and
  \<^verbatim>\<open>DOMAIN_NAME\<close> in its environment. The upsert writes the A record of the domain
  name; the answer carries the identifier of the change.
\<close>

definition update_dns_handler :: "world \<Rightarrow> json \<Rightarrow> world \<times> (error + json)" where
  "update_dns_handler w event =
     (if dns_enabled w \<noteq> ''true'' then
        (w, Inr (JObj [(''statusCode'', JInt 200), (''message'', JStr ''Route53 disabled'')]))
      else
        (case dict_get event ''publicIp'' (JStr '''') of
           Inl e \<Rightarrow> (w, Inl e)
         | Inr public_ip \<Rightarrow>
             if \<not> truthy public_ip then
               (w, Inr (JObj [(''statusCode'', JInt 400), (''error'', JStr ''No IP provided'')]))
             else
               (w\<lparr>record_sets := dict_set (record_sets w) (dns_domain_name w) public_ip\<rparr>,
                Inr (JObj [(''statusCode'', JInt 200),
                           (''changeId'', JStr (next_change_id w))]))))"

section \<open>Lifecycle orchestrator: the two state machines\<close>

text \<open>
  The states the stack declares: \<^verbatim>\<open>tasks.LambdaInvoke\<close> with the function, the key of
  its \<^verbatim>\<open>result_path\<close> (\<^verbatim>\<open>$.taskInfo\<close> is the key \<^verbatim>\<open>taskInfo\<close>) and the keys of its
  optional \<^verbatim>\<open>output_path\<close>; \<^verbatim>\<open>sfn.Wait\<close> with its seconds; \<^verbatim>\<open>sfn.Succeed\<close>. A
  definition is the chain that \<^verbatim>\<open>.next\<close> builds, the states in order.
\<close>

datatype lambda_fn =
    StartTaskFunction
  | GetIPFunction
  | BackupFunction
  | StopTaskFunction
  | UpdateDNSFunction

datatype sfn_state =
    LambdaInvoke string lambda_fn string "string list option"
  | Wait string nat
  | Succeed string

definition start_task_step :: sfn_state where
  "start_task_step =
     LambdaInvoke ''StartTask'' StartTaskFunction ''taskInfo'' (Some [''taskInfo'', ''Payload''])"

definition wait_for_task :: sfn_state where
  "wait_for_task = Wait ''WaitForTask'' 30"

definition get_ip_step :: sfn_state where
  "get_ip_step = LambdaInvoke ''GetIP'' GetIPFunction ''ipInfo'' (Some [''ipInfo'', ''Payload''])"

definition update_dns_step :: sfn_state where
  "update_dns_step = LambdaInvoke ''UpdateDNS'' UpdateDNSFunction ''dnsInfo'' None"

definition server_ready :: sfn_state where
  "server_ready = Succeed ''ServerReady''"

definition start_definition :: "sfn_state list" where
  "start_definition =
     [start_task_step, wait_for_task, get_ip_step, update_dns_step, server_ready]"

definition backup_step :: sfn_state where
  "backup_step = LambdaInvoke ''BackupWorld'' BackupFunction ''backupInfo'' None"

definition stop_task_step :: sfn_state where
  "stop_task_step = LambdaInvoke ''StopTask'' StopTaskFunction ''stopInfo'' None"

definition server_stopped :: sfn_state where
  "server_stopped = Succeed ''ServerStopped''"

definition stop_definition :: "sfn_state list" where
  "stop_definition = [backup_step, stop_task_step, server_stopped]"

text \<open>The handler behind each function.\<close>

fun invoke :: "lambda_fn \<Rightarrow> world \<Rightarrow> json \<Rightarrow> world \<times> (error + json)" where
  "invoke StartTaskFunction w event = start_handler w event"
| "invoke GetIPFunction w event = get_ip_handler w event"
| "invoke BackupFunction w event = backup_handler w event"
| "invoke StopTaskFunction w event = stop_handler w event"
| "invoke UpdateDNSFunction w event = update_dns_handler w event"

text \<open>
  How the workflow engine runs a chain. A \<^verbatim>\<open>LambdaInvoke\<close> state passes its whole input
  to the function as the event. The result of the invocation is an object that holds the
  returned value under \<^verbatim>\<open>Payload\<close> (the HTTP metadata of the call is left out here); it
  is stored in the input under the key of the result path, and the output path, when there
  is one, selects the state's output from that. A function that raises fails the execution
  at that state, since no state declares a catcher. A fault can be injected at a state by
  its name: the invocation fails, or it stalls until the time limit of the state machine
  ends the execution. An execution returns the names of the states it entered, the world
  it left, and how it ended.
\<close>

datatype fault = Fails | Stalls

datatype cause = HandlerRaised error | InvocationFailed | PathFailed

datatype execution_status =
    Succeeded json
  | Failed string cause
  | TimedOut string

definition lambda_result :: "json \<Rightarrow> json" where
  "lambda_result payload =
     JObj [(''ExecutedVersion'', JStr ''$LATEST''), (''Payload'', payload), (''StatusCode'', JInt 200)]"

fun select_path :: "string list \<Rightarrow> json \<Rightarrow> json option" where
  "select_path [] j = Some j"
| "select_path (k # ks) (JObj kvs) =
     (case map_of kvs k of None \<Rightarrow> None | Some v \<Rightarrow> select_path ks v)"
| "select_path (k # ks) _ = None"

fun state_output :: "string \<Rightarrow> string list option \<Rightarrow> json \<Rightarrow> json \<Rightarrow> json option" where
  "state_output result_key output_path (JObj kvs) result =
     (case output_path of
        None \<Rightarrow> Some (JObj (dict_set kvs result_key result))
      | Some ks \<Rightarrow> select_path ks (JObj (dict_set kvs result_key result)))"
| "state_output result_key output_path _ result = None"

fun run :: "(string \<Rightarrow> fault option) \<Rightarrow> sfn_state list \<Rightarrow> world \<Rightarrow> json
            \<Rightarrow> string list \<times> world \<times> execution_status" where
  "run faults [] w input = ([], w, Succeeded input)"
| "run faults (Succeed name # rest) w input = ([name], w, Succeeded input)"
| "run faults (Wait name seconds # rest) w input =
     (case run faults rest w input of (names, w', status) \<Rightarrow> (name # names, w', status))"
| "run faults (LambdaInvoke name fn result_key output_path # rest) w input =
     (case faults name of
        Some Fails \<Rightarrow> ([name], w, Failed name InvocationFailed)
      | Some Stalls \<Rightarrow> ([name], w, TimedOut name)
      | None \<Rightarrow>
          (case invoke fn w input of
             (w', Inl e) \<Rightarrow> ([name], w', Failed name (HandlerRaised e))
           | (w', Inr payload) \<Rightarrow>
               (case state_output result_key output_path input (lambda_result payload) of
                  None \<Rightarrow> ([name], w', Failed name PathFailed)
                | Some output \<Rightarrow>
                    (case run faults rest w' output of
                       (names, w'', status) \<Rightarrow> (name # names, w'', status)))))"

text \<open>The snapshot step of an execution of the stop workflow completed successfully: no
  fault was injected at it and the backup function returned.\<close>

definition snapshot_completed :: "(string \<Rightarrow> fault option) \<Rightarrow> world \<Rightarrow> json \<Rightarrow> bool" where
  "snapshot_completed faults w input =
     (faults ''BackupWorld'' = None \<and> \<not> isl (snd (backup_handler w input)))"

section \<open>The stack: configuration and server sizing\<close>

text \<open>
  The \<^verbatim>\<open>minecraft\<close> entry of the CDK context is JSON written by hand in
  \<^verbatim>\<open>cdk.json\<close>: \<^verbatim>\<open>try_get_context\<close> gives \<^verbatim>\<open>None\<close> when there is no entry and the
  value as it stands otherwise, of whatever type.
\<close>

record server_config =
  cpu :: nat
  memory :: nat
  description :: string

definition server_configs :: "(string \<times> server_config) list" where
  "server_configs =
     [(''small'', \<lparr>cpu = 2048, memory = 4096, description = ''1-5 players''\<rparr>),
      (''medium'', \<lparr>cpu = 2048, memory = 8192, description = ''5-10 players''\<rparr>),
      (''large'', \<lparr>cpu = 4096, memory = 16384, description = ''10-20 players''\<rparr>)]"

text \<open>
  \<^verbatim>\<open>server_configs[server_size]\<close>: the keys of the dictionary are strings, so a string
  that is not a key, and a null, a boolean or a number, raise KeyError; a list or an
  object cannot be hashed and raises TypeError.
\<close>

fun lookup_server_config :: "json \<Rightarrow> error + server_config" where
  "lookup_server_config (JStr s) =
     (case map_of server_configs s of None \<Rightarrow> Inl (KeyError s) | Some sc \<Rightarrow> Inr sc)"
| "lookup_server_config (JArr xs) = Inl TypeError"
| "lookup_server_config (JObj kvs) = Inl TypeError"
| "lookup_server_config v = Inl (KeyErrorNonString v)"

text \<open>What the constructor leaves when it returns: the sizing of the task definition, the
  desired count of the service, the environment of the DNS function and the
  \<^verbatim>\<open>ServerSize\<close> output.\<close>

record stack =
  task_cpu :: nat
  task_memory_limit_mib :: nat
  service_desired_count :: int
  update_dns_environment :: "(string \<times> string) list"
  server_size_output :: string

text \<open>The constructs of the stack in the order of their declaration.\<close>

definition stack_constructs :: "string list" where
  "stack_constructs =
     [''MinecraftVPC'', ''MinecraftBackups'', ''MinecraftCluster'', ''TaskExecutionRole'',
      ''TaskRole'', ''MinecraftTask'', ''MinecraftContainer'', ''MinecraftSG'',
      ''MinecraftService'', ''StartTaskFunction'', ''GetIPFunction'', ''BackupFunction'',
      ''StopTaskFunction'', ''UpdateDNSFunction'', ''StartTask'', ''WaitForTask'', ''GetIP'',
      ''UpdateDNS'', ''ServerReady'', ''StartServerStateMachine'', ''BackupWorld'',
      ''StopTask'', ''ServerStopped'', ''StopServerStateMachine'', ''ApiHandler'',
      ''MinecraftApi'', ''BackupRule'', ''ApiEndpoint'', ''StartCommand'', ''StopCommand'',
      ''StatusCommand'', ''BackupBucket'', ''ServerSize'']"

text \<open>
  \<^verbatim>\<open>MinecraftServerStack.__init__\<close>. \<^verbatim>\<open>config = ... or {}\<close> replaces a missing or
  falsy entry by the empty dictionary; the four options are read with \<^verbatim>\<open>config.get\<close>,
  which only a dictionary has; the sizing is looked up before the first construct. The
  environment of the DNS function takes strings only, so the construct library refuses a
  hosted zone or a domain name of another type with a TypeError when that function is
  declared. The result holds the constructs declared when the constructor returned or
  raised.
\<close>

definition stack_init :: "json option \<Rightarrow> string list \<times> (error + stack)" where
  "stack_init ctx =
     (let config = (case ctx of None \<Rightarrow> JObj [] | Some j \<Rightarrow> if truthy j then j else JObj []) in
      case dict_get config ''server_size'' (JStr ''small'') of
        Inl e \<Rightarrow> ([], Inl e)
      | Inr server_size \<Rightarrow>
      case dict_get config ''enable_route53'' (JBool False) of
        Inl e \<Rightarrow> ([], Inl e)
      | Inr enable_route53 \<Rightarrow>
      case dict_get config ''hosted_zone_id'' (JStr '''') of
        Inl e \<Rightarrow> ([], Inl e)
      | Inr hosted_zone_id \<Rightarrow>
      case dict_get config ''domain_name'' (JStr '''') of
        Inl e \<Rightarrow> ([], Inl e)
      | Inr domain_name \<Rightarrow>
      case lookup_server_config server_size of
        Inl e \<Rightarrow> ([], Inl e)
      | Inr sc \<Rightarrow>
          (case (server_size, hosted_zone_id, domain_name) of
             (JStr size_name, JStr zone, JStr domain) \<Rightarrow>
               (stack_constructs,
                Inr \<lparr>task_cpu = cpu sc,
                     task_memory_limit_mib = memory sc,
                     service_desired_count = 1,
                     update_dns_environment =
                       [(''ENABLED'', if truthy enable_route53 then ''true'' else ''false''),
                        (''HOSTED_ZONE_ID'', zone), (''DOMAIN_NAME'', domain)],
                     server_size_output = size_name @ '' ('' @ description sc @ '')''\<rparr>)
           | _ \<Rightarrow>
               (takeWhile (\<lambda>c. c \<noteq> ''UpdateDNSFunction'') stack_constructs, Inl TypeError)))"

section \<open>Example inputs\<close>

text \<open>
  A world in which the task is pending for two polls and then runs with a network
  interface that has a public address, and one in which the task never runs.
\<close>

definition pending_response :: describe_tasks_response where
  "pending_response = \<lparr>tasks = [\<lparr>lastStatus = ''PENDING'', attachments = None\<rparr>], failures = []\<rparr>"

definition running_response :: describe_tasks_response where
  "running_response =
     \<lparr>tasks = [\<lparr>lastStatus = ''RUNNING'',
                attachments = Some [\<lparr>details = Some [(''subnetId'', ''subnet-1''),
                                                      (''networkInterfaceId'', ''eni-1'')]\<rparr>]\<rparr>],
      failures = []\<rparr>"

definition example_world :: world where
  "example_world =
     \<lparr>desiredCount = 1,
      describe_tasks = (\<lambda>k. if k < 2 then pending_response else running_response),
      describe_network_interfaces =
        (\<lambda>i. if i = ''eni-1'' then [\<lparr>Association = Some (Some ''203.0.113.7'')\<rparr>] else []),
      utcnow = \<lparr>year = 2024, month = 3, day = 9, hour = 7, minute = 5, second = 0,
                microsecond = 1234\<rparr>,
      dns_enabled = ''true'',
      dns_hosted_zone_id = ''Z1'',
      dns_domain_name = ''mc.example.com'',
      record_sets = [],
      next_change_id = ''/change/C1''\<rparr>"

definition never_running_world :: world where
  "never_running_world = example_world\<lparr>describe_tasks := (\<lambda>k. pending_response)\<rparr>"

definition no_address_world :: world where
  "no_address_world =
     example_world\<lparr>describe_network_interfaces := (\<lambda>i. [\<lparr>Association = None\<rparr>])\<rparr>"

definition example_event :: json where
  "example_event = JObj [(''cluster'', JStr ''minecraft''), (''taskArn'', JStr ''arn:task/1'')]"

definition example_deployment :: deployment where
  "example_deployment =
     \<lparr>cluster_name = ''minecraft'', start_state_machine_arn = ''arn:start'',
      stop_state_machine_arn = ''arn:stop''\<rparr>"

definition example_control_plane :: "string list \<Rightarrow> control_plane" where
  "example_control_plane arns =
     \<lparr>list_tasks = Some arns, start_execution = (\<lambda>machine input. machine @ '':execution:1'')\<rparr>"

definition action_event :: "string \<Rightarrow> api_event" where
  "action_event a = \<lparr>pathParameters = Some [(''action'', a)]\<rparr>"

definition no_faults :: "string \<Rightarrow> fault option" where
  "no_faults name = None"

section \<open>Properties of the scale controller\<close>

lemma scale_desiredCount:
  "desiredCount (fst (scale c w)) = (if fst c = Start then 1 else 0)"
  by (cases c; cases "fst c") (auto simp: start_handler_def stop_handler_def update_service_def)

lemma scale_trace_range:
  "desiredCount w \<in> {0, 1} \<Longrightarrow> set (map desiredCount (scale_trace w cs)) \<subseteq> {0, 1}"
proof (induction cs arbitrary: w)
  case Nil
  then show ?case by simp
next
  case (Cons c cs)
  have "desiredCount (fst (scale c w)) \<in> {0, 1}"
    by (simp add: scale_desiredCount)
  from Cons.IH [OF this] Cons.prems show ?case by simp
qed

lemma scale_trace_last:
  "cs \<noteq> [] \<Longrightarrow>
   desiredCount (last (scale_trace w cs)) = (if fst (last cs) = Start then 1 else 0)"
proof (induction cs arbitrary: w)
  case Nil
  then show ?case by simp
next
  case (Cons c cs)
  show ?case
  proof (cases cs)
    case Nil
    then show ?thesis by (simp add: scale_desiredCount)
  next
    case (Cons d ds)
    with Cons.IH [of "fst (scale c w)"] show ?thesis by simp
  qed
qed

lemma scale_trace_nonempty: "scale_trace w cs \<noteq> []"
  by (cases cs) simp_all

lemma scale_not_error: "\<not> isl (snd (scale c w))"
proof (cases c)
  case (Pair op event)
  then show ?thesis
    by (cases op) (simp_all add: start_handler_def stop_handler_def)
qed

lemma scale_always_returns: "scale_returns w cs"
  by (induction cs arbitrary: w) (simp_all add: scale_not_error)

lemma start_handler_repeat:
  "desiredCount w = 1 \<Longrightarrow> fst (start_handler w event) = w \<and> \<not> isl (snd (start_handler w event))"
  by (simp add: start_handler_def update_service_def)

lemma stop_handler_repeat:
  "desiredCount w = 0 \<Longrightarrow> fst (stop_handler w event) = w \<and> \<not> isl (snd (stop_handler w event))"
  by (simp add: stop_handler_def update_service_def)

text \<open>
  Claim C1. From a service whose desired count is 0 or 1, every sequence of start and
  stop operations keeps the desired count in {0, 1} at every point, no operation raises,
  after a non-empty sequence the desired count is 1 when the last operation was a start
  and 0 when it was a stop, and an operation applied to a service that already has the
  count it sets leaves the world as it is and returns normally.
\<close>

theorem scale_sequence_desired_count:
  assumes "desiredCount w \<in> {0, 1}"
  shows "set (map desiredCount (scale_trace w cs)) \<subseteq> {0, 1}
       \<and> scale_returns w cs
       \<and> (cs \<noteq> [] \<longrightarrow>
            desiredCount (last (scale_trace w cs)) = (if fst (last cs) = Start then 1 else 0))
       \<and> (desiredCount w = 1 \<longrightarrow>
            fst (start_handler w event) = w \<and> \<not> isl (snd (start_handler w event)))
       \<and> (desiredCount w = 0 \<longrightarrow>
            fst (stop_handler w event) = w \<and> \<not> isl (snd (stop_handler w event)))"
  using assms scale_trace_range scale_trace_last scale_always_returns
    start_handler_repeat stop_handler_repeat
  by blast


theorem scale_sequence_desired_count_witness:
  "desiredCount example_world \<in> {0, 1}
   \<and> set (map desiredCount
        (scale_trace example_world [(Stop, JObj []), (Start, JObj []), (Start, JNull)])) \<subseteq> {0, 1}
   \<and> map desiredCount
        (scale_trace example_world [(Stop, JObj []), (Start, JObj []), (Start, JNull)]) =
       [1, 0, 1, 1]
   \<and> desiredCount (last (scale_trace example_world [(Start, JObj []), (Stop, JObj [])])) = 0
   \<and> fst (start_handler example_world JNull) = example_world"
  using scale_sequence_desired_count
      [of example_world "[(Stop, JObj []), (Start, JObj []), (Start, JNull)]" JNull]
    scale_sequence_desired_count [of example_world "[(Start, JObj []), (Stop, JObj [])]" JNull]
  by (simp add: example_world_def start_handler_def stop_handler_def update_service_def)


section \<open>Properties of the control API\<close>

lemma dumps_error_not_found:
  "json_dumps (JObj [(''error'', JStr ''No running server found'')]) =
   ''{\"error\": \"No running server found\"}''"
  by (simp add: dumps_str_def escape_char_def)

lemma dumps_invalid_action:
  "json_dumps (JObj [(''error'', JStr ''Invalid action. Use /start, /stop, or /status'')]) =
   ''{\"error\": \"Invalid action. Use /start, /stop, or /status\"}''"
  by (simp add: dumps_str_def escape_char_def)

lemma dumps_stopped:
  "json_dumps (JObj [(''status'', JStr ''stopped'')]) = ''{\"status\": \"stopped\"}''"
  by (simp add: dumps_str_def escape_char_def)

lemma dumps_running:
  "json_dumps (JObj [(''status'', JStr ''running''), (''taskCount'', JInt (int n))]) =
   ''{\"status\": \"running\", \"taskCount\": '' @ dec n @ ''}''"
  by (simp add: dumps_str_def escape_char_def str_int_def)

lemma dumps_execution:
  "json_dumps (JObj [(''message'', JStr m), (''executionArn'', JStr arn)]) =
   ''{\"message\": '' @ dumps_str m @ '', \"executionArn\": '' @ dumps_str arn @ ''}''"
  by (simp add: dumps_str_def escape_char_def)

text \<open>
  Claim C2. For the action \<^verbatim>\<open>stop\<close>: when the lookup lists no running task, the handler
  answers 404 with the body \<^verbatim>\<open>{"error": "No running server found"}\<close> and its only call
  is the lookup, so the stop workflow is not started; when the lookup lists at least one
  task, the handler starts the stop state machine with the cluster and the first listed
  task as input, and answers 200 with the execution identifier that call returned.
\<close>

theorem api_stop:
  assumes "action_of event = ''stop''"
  shows "(task_arns cp = [] \<longrightarrow>
            api_handler d cp event =
              ([ListTasks (cluster_name d) ''RUNNING''],
               \<lparr>statusCode = 404, body = ''{\"error\": \"No running server found\"}''\<rparr>))
       \<and> (\<forall>task_arn rest. task_arns cp = task_arn # rest \<longrightarrow>
            api_handler d cp event =
              (let input = json_dumps (JObj [(''cluster'', JStr (cluster_name d)),
                                             (''taskArn'', JStr task_arn)])
               in ([ListTasks (cluster_name d) ''RUNNING'',
                    StartExecution (stop_state_machine_arn d) input],
                   \<lparr>statusCode = 200,
                    body = ''{\"message\": \"Server stopping\", \"executionArn\": '' @
                           dumps_str (start_execution cp (stop_state_machine_arn d) input) @
                           ''}''\<rparr>)))"
  using assms
  unfolding api_handler_def Let_def dumps_error_not_found dumps_execution
  by (simp add: dumps_str_def escape_char_def)

theorem api_stop_witness:
  "action_of (action_event ''stop'') = ''stop''
   \<and> task_arns (example_control_plane []) = []
   \<and> api_handler example_deployment (example_control_plane []) (action_event ''stop'') =
       ([ListTasks ''minecraft'' ''RUNNING''],
        \<lparr>statusCode = 404, body = ''{\"error\": \"No running server found\"}''\<rparr>)
   \<and> task_arns (example_control_plane [''arn:task/1'', ''arn:task/2'']) =
       [''arn:task/1'', ''arn:task/2'']
   \<and> api_handler example_deployment (example_control_plane [''arn:task/1'', ''arn:task/2''])
         (action_event ''stop'') =
       ([ListTasks ''minecraft'' ''RUNNING'',
         StartExecution ''arn:stop'' ''{\"cluster\": \"minecraft\", \"taskArn\": \"arn:task/1\"}''],
        \<lparr>statusCode = 200,
         body = ''{\"message\": \"Server stopping\", \"executionArn\": \"arn:stop:execution:1\"}''\<rparr>)"
  using api_stop [of "action_event ''stop''" "example_control_plane []" example_deployment]
    api_stop [of "action_event ''stop''" "example_control_plane [''arn:task/1'', ''arn:task/2'']"
      example_deployment]
  by (simp add: action_event_def action_of_def example_control_plane_def example_deployment_def
      task_arns_def dumps_str_def escape_char_def)

text \<open>
  Claim C7. For the action \<^verbatim>\<open>status\<close> the handler answers 200 in both cases, with the
  body \<^verbatim>\<open>{"status": "stopped"}\<close> when the lookup lists no running task and with
  \<^verbatim>\<open>{"status": "running", "taskCount": n}\<close>, n the number of listed tasks, otherwise; its
  only call is the lookup, so no workflow is started.
\<close>

theorem api_status:
  assumes "action_of event = ''status''"
  shows "(task_arns cp = [] \<longrightarrow>
            api_handler d cp event =
              ([ListTasks (cluster_name d) ''RUNNING''],
               \<lparr>statusCode = 200, body = ''{\"status\": \"stopped\"}''\<rparr>))
       \<and> (task_arns cp \<noteq> [] \<longrightarrow>
            api_handler d cp event =
              ([ListTasks (cluster_name d) ''RUNNING''],
               \<lparr>statusCode = 200,
                body = ''{\"status\": \"running\", \"taskCount\": '' @
                       dec (length (task_arns cp)) @ ''}''\<rparr>))"
  using assms
  unfolding api_handler_def Let_def dumps_stopped dumps_running
  by (cases "task_arns cp") (simp_all del: dec.simps)

theorem api_status_witness:
  "action_of (action_event ''status'') = ''status''
   \<and> api_handler example_deployment (example_control_plane []) (action_event ''status'') =
       ([ListTasks ''minecraft'' ''RUNNING''],
        \<lparr>statusCode = 200, body = ''{\"status\": \"stopped\"}''\<rparr>)
   \<and> api_handler example_deployment (example_control_plane [''arn:task/1'', ''arn:task/2''])
         (action_event ''status'') =
       ([ListTasks ''minecraft'' ''RUNNING''],
        \<lparr>statusCode = 200, body = ''{\"status\": \"running\", \"taskCount\": 2}''\<rparr>)"
  using api_status [of "action_event ''status''" "example_control_plane []" example_deployment]
    api_status [of "action_event ''status''"
      "example_control_plane [''arn:task/1'', ''arn:task/2'']" example_deployment]
  by (simp add: action_event_def action_of_def example_control_plane_def example_deployment_def
      task_arns_def)

text \<open>
  Claim C8. For an action other than \<^verbatim>\<open>start\<close>, \<^verbatim>\<open>stop\<close> and \<^verbatim>\<open>status\<close>, a missing
  action included (it reads as the empty string), the handler answers 400 with the body
  \<^verbatim>\<open>{"error": "Invalid action. Use /start, /stop, or /status"}\<close> and makes no call at
  all: no lookup and no workflow.
\<close>

theorem api_invalid_action:
  assumes "action_of event \<noteq> ''start''" "action_of event \<noteq> ''stop''"
    "action_of event \<noteq> ''status''"
  shows "api_handler d cp event =
           ([], \<lparr>statusCode = 400,
                 body = ''{\"error\": \"Invalid action. Use /start, /stop, or /status\"}''\<rparr>)"
  using assms
  unfolding api_handler_def Let_def dumps_invalid_action
  by simp

theorem api_invalid_action_witness:
  "action_of (action_event ''nonsense'') = ''nonsense''
   \<and> api_handler example_deployment (example_control_plane [''arn:task/1''])
         (action_event ''nonsense'') =
       ([], \<lparr>statusCode = 400,
             body = ''{\"error\": \"Invalid action. Use /start, /stop, or /status\"}''\<rparr>)
   \<and> action_of \<lparr>pathParameters = None\<rparr> = ''''
   \<and> api_handler example_deployment (example_control_plane [''arn:task/1''])
         \<lparr>pathParameters = None\<rparr> =
       ([], \<lparr>statusCode = 400,
             body = ''{\"error\": \"Invalid action. Use /start, /stop, or /status\"}''\<rparr>)
   \<and> action_of \<lparr>pathParameters = Some []\<rparr> = ''''"
  using api_invalid_action [of "action_event ''nonsense''" example_deployment
      "example_control_plane [''arn:task/1'']"]
    api_invalid_action [of "\<lparr>pathParameters = None\<rparr>" example_deployment
      "example_control_plane [''arn:task/1'']"]
  by (simp add: action_event_def action_of_def)


section \<open>Properties of the lifecycle orchestrator\<close>

lemma map_of_dict_set: "map_of (dict_set kvs k v) k = Some v"
  by (induction kvs) auto

lemma backup_handler_world: "fst (backup_handler w input) = w"
  by (simp add: backup_handler_def Let_def split: sum.splits)

lemma backup_handler_returns_object:
  "snd (backup_handler w input) = Inr p \<Longrightarrow> \<exists>kvs. input = JObj kvs"
  by (cases input) (simp_all add: backup_handler_def)

lemma run_backup_step:
  "run faults (backup_step # rest) w input =
     (case faults ''BackupWorld'' of
        Some Fails \<Rightarrow> ([''BackupWorld''], w, Failed ''BackupWorld'' InvocationFailed)
      | Some Stalls \<Rightarrow> ([''BackupWorld''], w, TimedOut ''BackupWorld'')
      | None \<Rightarrow>
          (case snd (backup_handler w input) of
             Inl e \<Rightarrow> ([''BackupWorld''], w, Failed ''BackupWorld'' (HandlerRaised e))
           | Inr p \<Rightarrow>
               (case run faults rest w
                       (JObj (dict_set (case input of JObj kvs \<Rightarrow> kvs) ''backupInfo'' (lambda_result p))) of
                  (names, w', status) \<Rightarrow> (''BackupWorld'' # names, w', status))))"
proof (cases "backup_handler w input")
  case (Pair w' r)
  with backup_handler_world [of w input] have w': "w' = w" by simp
  show ?thesis
  proof (cases r)
    case (Inl e)
    with Pair w' show ?thesis
      by (simp add: backup_step_def split: option.splits fault.splits)
  next
    case (Inr p)
    with Pair backup_handler_returns_object [of w input p] obtain kvs where "input = JObj kvs"
      by auto
    with Pair w' Inr show ?thesis
      by (simp add: backup_step_def split: option.splits fault.splits)
  qed
qed

lemma run_stop_task_step:
  "run faults [stop_task_step, server_stopped] w (JObj kvs) =
     (case faults ''StopTask'' of
        Some Fails \<Rightarrow> ([''StopTask''], w, Failed ''StopTask'' InvocationFailed)
      | Some Stalls \<Rightarrow> ([''StopTask''], w, TimedOut ''StopTask'')
      | None \<Rightarrow>
          ([''StopTask'', ''ServerStopped''], update_service 0 w,
           Succeeded (JObj (dict_set kvs ''stopInfo''
             (lambda_result (JObj [(''statusCode'', JInt 200), (''message'', JStr ''Server stopped'')]))))))"
  by (simp add: stop_task_step_def server_stopped_def stop_handler_def
      split: option.splits fault.splits)

text \<open>
  Claim C3. Every execution of the stop workflow enters the snapshot state first and the
  scale-down state only after it. When the snapshot step does not complete successfully
  (a fault is injected at it, it stalls, or the backup function raises), the execution
  ends at the snapshot state: the scale-down state is not entered, the world is left as
  it was and the execution does not succeed. The desired count changes only in an
  execution whose snapshot step completed, and then to 0.
\<close>

theorem stop_workflow_snapshot_first:
  assumes "run faults stop_definition w input = (names, w', status)"
  shows "(names = [''BackupWorld''] \<or> names = [''BackupWorld'', ''StopTask'']
          \<or> names = [''BackupWorld'', ''StopTask'', ''ServerStopped''])
       \<and> (\<not> snapshot_completed faults w input \<longrightarrow>
            names = [''BackupWorld''] \<and> w' = w \<and> (\<forall>output. status \<noteq> Succeeded output))
       \<and> (''StopTask'' \<in> set names \<longrightarrow> snapshot_completed faults w input)
       \<and> (desiredCount w' \<noteq> desiredCount w \<longrightarrow>
            snapshot_completed faults w input \<and> faults ''StopTask'' = None \<and> desiredCount w' = 0)"
  using assms
  unfolding stop_definition_def run_backup_step run_stop_task_step snapshot_completed_def
  by (auto simp: update_service_def split: option.splits fault.splits sum.splits)

lemma example_isoformat: "isoformat (utcnow example_world) = ''2024-03-09T07:05:00.001234''"
  by code_simp

lemma example_backup:
  "backup_handler example_world example_event =
     (example_world,
      Inr (JObj [(''statusCode'', JInt 200),
                 (''backupKey'', JStr ''backups/world-2024-03-09T07:05:00.001234.tar.gz''),
                 (''timestamp'', JStr ''2024-03-09T07:05:00.001234'')]))"
  unfolding backup_handler_def Let_def example_isoformat
  by (simp add: example_event_def backup_key_of_def)

lemma example_stop_run:
  "fst (run no_faults stop_definition example_world example_event) =
     [''BackupWorld'', ''StopTask'', ''ServerStopped'']
   \<and> fst (snd (run no_faults stop_definition example_world example_event)) =
     update_service 0 example_world"
  unfolding stop_definition_def run_backup_step
  by (simp add: no_faults_def example_backup)
     (simp add: example_event_def run_stop_task_step no_faults_def)

theorem stop_workflow_snapshot_first_witness:
  "run (\<lambda>name. if name = ''BackupWorld'' then Some Stalls else None) stop_definition
       example_world example_event =
     ([''BackupWorld''], example_world, TimedOut ''BackupWorld'')
   \<and> \<not> snapshot_completed (\<lambda>name. if name = ''BackupWorld'' then Some Stalls else None)
         example_world example_event
   \<and> fst (run no_faults stop_definition example_world example_event) =
       [''BackupWorld'', ''StopTask'', ''ServerStopped'']
   \<and> snapshot_completed no_faults example_world example_event
   \<and> desiredCount example_world = 1
   \<and> desiredCount (fst (snd (run no_faults stop_definition example_world example_event))) = 0"
proof -
  have stalled: "run (\<lambda>name. if name = ''BackupWorld'' then Some Stalls else None) stop_definition
       example_world example_event =
     ([''BackupWorld''], example_world, TimedOut ''BackupWorld'')"
    by (simp add: stop_definition_def run_backup_step)
  have completed: "snapshot_completed no_faults example_world example_event"
    by (simp add: snapshot_completed_def no_faults_def example_backup)
  have count: "desiredCount example_world = 1"
    by (simp add: example_world_def)
  from stop_workflow_snapshot_first [OF stalled]
    stop_workflow_snapshot_first
      [of no_faults example_world example_event
        "fst (run no_faults stop_definition example_world example_event)"
        "fst (snd (run no_faults stop_definition example_world example_event))"
        "snd (snd (run no_faults stop_definition example_world example_event))"]
    stalled completed count example_stop_run
  show ?thesis
    by (simp add: snapshot_completed_def update_service_def)
qed

lemma run_start_task_step:
  "run faults (start_task_step # rest) w input =
     (case faults ''StartTask'' of
        Some Fails \<Rightarrow> ([''StartTask''], w, Failed ''StartTask'' InvocationFailed)
      | Some Stalls \<Rightarrow> ([''StartTask''], w, TimedOut ''StartTask'')
      | None \<Rightarrow>
          (case input of
             JObj kvs \<Rightarrow>
               (case run faults rest (update_service 1 w)
                       (JObj [(''statusCode'', JInt 200), (''message'', JStr ''Server started'')]) of
                  (names, w', status) \<Rightarrow> (''StartTask'' # names, w', status))
           | _ \<Rightarrow> ([''StartTask''], update_service 1 w, Failed ''StartTask'' PathFailed)))"
  by (cases input)
     (simp_all add: start_task_step_def start_handler_def lambda_result_def map_of_dict_set
       split: option.splits fault.splits)

lemma run_get_ip_without_cluster:
  "map_of kvs ''cluster'' = None \<Longrightarrow>
   run faults (get_ip_step # rest) w (JObj kvs) =
     (case faults ''GetIP'' of
        Some Fails \<Rightarrow> ([''GetIP''], w, Failed ''GetIP'' InvocationFailed)
      | Some Stalls \<Rightarrow> ([''GetIP''], w, TimedOut ''GetIP'')
      | None \<Rightarrow> ([''GetIP''], w, Failed ''GetIP'' (HandlerRaised (KeyError ''cluster''))))"
  by (simp add: get_ip_step_def get_ip_handler_def split: option.splits fault.splits)

text \<open>Past that point the chain is wired as intended: what the address function returns is
  the event of the DNS function.\<close>

lemma run_get_ip_step_returns:
  "faults ''GetIP'' = None \<Longrightarrow> get_ip_handler w (JObj kvs) = (w', Inr payload) \<Longrightarrow>
   run faults (get_ip_step # update_dns_step # rest) w (JObj kvs) =
     (case run faults (update_dns_step # rest) w' payload of
        (names, w'', status) \<Rightarrow> (''GetIP'' # names, w'', status))"
  by (simp add: get_ip_step_def lambda_result_def map_of_dict_set)

text \<open>
  Claim C6, evaluated on the code. The chain of the start workflow is StartTask,
  WaitForTask, GetIP, UpdateDNS, ServerReady, but no execution runs it to the end: the
  output path of StartTask replaces the state by what the start function returned, which
  has no \<^verbatim>\<open>cluster\<close> and no \<^verbatim>\<open>taskArn\<close>, so the address function raises
  KeyError at its first line and the execution fails at GetIP. Whatever the input and
  the injected faults, UpdateDNS and ServerReady are never entered.
\<close>

theorem start_workflow_stops_at_get_ip:
  "run no_faults start_definition w (JObj kvs) =
     ([''StartTask'', ''WaitForTask'', ''GetIP''], update_service 1 w,
      Failed ''GetIP'' (HandlerRaised (KeyError ''cluster'')))
   \<and> ''UpdateDNS'' \<notin> set (fst (run faults start_definition w input))
   \<and> ''ServerReady'' \<notin> set (fst (run faults start_definition w input))"
  unfolding start_definition_def run_start_task_step
  by (cases input)
     (simp_all add: wait_for_task_def run_get_ip_without_cluster no_faults_def
       split: option.splits fault.splits)



section \<open>Properties of the address resolver\<close>

lemma waiter_wait_bounds:
  "num_attempts < max_attempts \<Longrightarrow>
   waiter_wait delay max_attempts operation num_attempts slept = (n, s, r) \<Longrightarrow>
   num_attempts < n \<and> n \<le> max_attempts \<and> s = slept + delay * (n - num_attempts - 1)"
proof (induction delay max_attempts operation num_attempts slept rule: waiter_wait.induct)
  case (1 delay max_attempts operation num_attempts slept)
  show ?case
  proof (cases "tasks_running_acceptors (operation num_attempts)")
    case None
    show ?thesis
    proof (cases "max_attempts \<le> num_attempts + 1")
      case True
      with None "1.prems" show ?thesis by auto
    next
      case False
      with None "1.prems" have
        rec: "waiter_wait delay max_attempts operation (num_attempts + 1) (slept + delay) = (n, s, r)"
        by simp
      from False have "num_attempts + 1 < max_attempts" by simp
      from "1.IH" [OF None False this rec]
      have "num_attempts + 1 < n" "n \<le> max_attempts"
        "s = slept + delay + delay * (n - (num_attempts + 1) - 1)" by auto
      moreover from \<open>num_attempts + 1 < n\<close>
      have "delay + delay * (n - (num_attempts + 1) - 1) = delay * (n - num_attempts - 1)"
        by (cases "n - num_attempts - 1") auto
      ultimately show ?thesis by simp
    qed
  next
    case (Some st)
    with "1.prems" show ?thesis by (cases st) auto
  qed
qed

lemma waiter_wait_never_success:
  "\<forall>k. tasks_running_acceptors (operation k) \<noteq> Some Success \<Longrightarrow>
   waiter_wait delay max_attempts operation num_attempts slept = (n, s, r) \<Longrightarrow>
   \<exists>reason. r = Inl (WaiterError reason)"
proof (induction delay max_attempts operation num_attempts slept rule: waiter_wait.induct)
  case (1 delay max_attempts operation num_attempts slept)
  show ?case
  proof (cases "tasks_running_acceptors (operation num_attempts)")
    case None
    with "1.prems" "1.IH" show ?thesis
      by (cases "max_attempts \<le> num_attempts + 1") auto
  next
    case (Some st)
    with "1.prems" show ?thesis by (cases st) auto
  qed
qed

lemma get_ip_handler_waiter_error:
  "waiter_wait 6 20 (describe_tasks w) 0 0 = (n, s, Inl e) \<Longrightarrow>
   isl (snd (get_ip_handler w event)) \<and> fst (get_ip_handler w event) = w"
  by (simp add: get_ip_handler_def split: sum.splits json.splits)

text \<open>
  Claim C5. When no answer of \<^verbatim>\<open>DescribeTasks\<close> ever shows the task running, the poll
  loop of the address resolver ends with a waiter error after at least one and at most 20
  calls, having slept 6 seconds between consecutive calls, and the handler ends with that
  error and leaves the world as it was. The loop is a total function, so it returns for
  every sequence of answers.
\<close>

theorem address_resolver_poll_bounded:
  assumes "\<forall>k. tasks_running_acceptors (describe_tasks w k) \<noteq> Some Success"
  shows "\<exists>n slept reason.
           waiter_wait 6 20 (describe_tasks w) 0 0 = (n, slept, Inl (WaiterError reason))
           \<and> 1 \<le> n \<and> n \<le> 20 \<and> slept = 6 * (n - 1)
           \<and> isl (snd (get_ip_handler w event)) \<and> fst (get_ip_handler w event) = w"
proof -
  obtain n s r where run: "waiter_wait 6 20 (describe_tasks w) 0 0 = (n, s, r)"
    by (cases "waiter_wait 6 20 (describe_tasks w) 0 0") auto
  from waiter_wait_never_success [OF assms run] obtain reason where r: "r = Inl (WaiterError reason)"
    by auto
  have "(0::nat) < 20" by simp
  from waiter_wait_bounds [OF this run] have "1 \<le> n" "n \<le> 20" "s = 6 * (n - 1)" by auto
  with run r get_ip_handler_waiter_error [of w n s "WaiterError reason" event]
  show ?thesis by auto
qed

lemma never_running_wait:
  "waiter_wait 6 20 (describe_tasks never_running_world) 0 0 =
     (20, 114, Inl (WaiterError ''Max attempts exceeded''))"
  by (simp add: never_running_world_def example_world_def pending_response_def
      tasks_running_acceptors_def)

theorem address_resolver_poll_bounded_witness:
  "(\<forall>k. tasks_running_acceptors (describe_tasks never_running_world k) \<noteq> Some Success)
   \<and> waiter_wait 6 20 (describe_tasks never_running_world) 0 0 =
       (20, 114, Inl (WaiterError ''Max attempts exceeded''))
   \<and> get_ip_handler never_running_world example_event =
       (never_running_world, Inl (WaiterError ''Max attempts exceeded''))"
proof -
  have never: "\<forall>k. tasks_running_acceptors (describe_tasks never_running_world k) \<noteq> Some Success"
    by (simp add: never_running_world_def example_world_def pending_response_def
        tasks_running_acceptors_def)
  from address_resolver_poll_bounded [OF never, of example_event] never never_running_wait
  show ?thesis
    by (simp add: get_ip_handler_def example_event_def)
qed

lemma get_ip_handler_running:
  "subscript event ''cluster'' = Inr (JStr c) \<Longrightarrow> subscript event ''taskArn'' = Inr (JStr a) \<Longrightarrow>
   waiter_wait 6 20 (describe_tasks w) 0 0 = (n, slept, Inr u) \<Longrightarrow>
   get_ip_handler w event = (w, read_address w (JStr a) n)"
  by (simp add: get_ip_handler_def)

text \<open>
  What the handler returns once the waiter found the task running: the 500 value when the
  attachments of the task hold no network interface identifier (or an empty one), and
  status code 200 with the address when there is an interface with a public address.
\<close>

lemma get_ip_handler_result:
  assumes "subscript event ''cluster'' = Inr (JStr c)"
    and "subscript event ''taskArn'' = Inr (JStr a)"
    and "waiter_wait 6 20 (describe_tasks w) 0 0 = (n, slept, Inr u)"
    and "tasks (describe_tasks w n) = t # ts"
  shows "(find_eni t = None \<or> find_eni t = Some [] \<longrightarrow>
            get_ip_handler w event =
              (w, Inr (JObj [(''statusCode'', JInt 500), (''error'', JStr ''No IP found'')])))
       \<and> (\<forall>eni_id ni nis ip.
            find_eni t = Some eni_id \<and> eni_id \<noteq> [] \<and>
            describe_network_interfaces w eni_id = ni # nis \<and> Association ni = Some (Some ip) \<longrightarrow>
            get_ip_handler w event =
              (w, Inr (JObj [(''statusCode'', JInt 200), (''publicIp'', JStr ip),
                             (''taskArn'', JStr a)])))"
  unfolding get_ip_handler_running [OF assms(1,2,3)]
  using assms(4)
  by (auto simp: read_address_def public_ip_of_def)

text \<open>The case the handler misses: an interface without a public address goes down the
  same branch, with the empty string as the address.\<close>

lemma get_ip_handler_no_public_address:
  assumes "subscript event ''cluster'' = Inr (JStr c)"
    and "subscript event ''taskArn'' = Inr (JStr a)"
    and "waiter_wait 6 20 (describe_tasks w) 0 0 = (n, slept, Inr u)"
    and "tasks (describe_tasks w n) = t # ts"
    and "find_eni t = Some eni_id" and "eni_id \<noteq> []"
    and "describe_network_interfaces w eni_id = ni # nis"
    and "Association ni = None \<or> Association ni = Some None"
  shows "get_ip_handler w event =
           (w, Inr (JObj [(''statusCode'', JInt 200), (''publicIp'', JStr ''''),
                          (''taskArn'', JStr a)]))"
  unfolding get_ip_handler_running [OF assms(1,2,3)]
  using assms(4-)
  by (auto simp: read_address_def public_ip_of_def)

lemma get_ip_handler_not_strings:
  "subscript event ''cluster'' = Inr cluster \<Longrightarrow> subscript event ''taskArn'' = Inr task_arn \<Longrightarrow>
   (\<forall>c. cluster \<noteq> JStr c) \<or> (\<forall>a. task_arn \<noteq> JStr a) \<Longrightarrow>
   get_ip_handler w event = (w, Inl ParamValidationError)"
  by (cases cluster; cases task_arn) (auto simp: get_ip_handler_def)

lemma example_wait:
  "waiter_wait 6 20 (describe_tasks example_world) 0 0 = (3, 12, Inr ())"
  by (simp add: example_world_def pending_response_def running_response_def
      tasks_running_acceptors_def)

lemma no_address_wait:
  "waiter_wait 6 20 (describe_tasks no_address_world) 0 0 = (3, 12, Inr ())"
  by (simp add: no_address_world_def example_world_def pending_response_def running_response_def
      tasks_running_acceptors_def)

lemma example_address:
  "get_ip_handler example_world example_event =
     (example_world,
      Inr (JObj [(''statusCode'', JInt 200), (''publicIp'', JStr ''203.0.113.7''),
                 (''taskArn'', JStr ''arn:task/1'')]))"
proof -
  have c: "subscript example_event ''cluster'' = Inr (JStr ''minecraft'')"
    and a: "subscript example_event ''taskArn'' = Inr (JStr ''arn:task/1'')"
    by (simp_all add: example_event_def)
  have "read_address example_world (JStr ''arn:task/1'') 3 =
      Inr (JObj [(''statusCode'', JInt 200), (''publicIp'', JStr ''203.0.113.7''),
                 (''taskArn'', JStr ''arn:task/1'')])"
    by (simp add: read_address_def example_world_def running_response_def find_eni_def
        public_ip_of_def)
  with get_ip_handler_running [OF c a example_wait] show ?thesis by simp
qed

text \<open>
  Claim C4, evaluated on the code. The task runs after three polls and its attachments
  name the interface \<^verbatim>\<open>eni-1\<close>, which has no association and so no public address. The
  handler does not return the value with status code 500 and \<^verbatim>\<open>No IP found\<close> that the
  claim states for a missing public address: it returns status code 200 with the empty
  string as the address.
\<close>

theorem address_resolver_no_public_address:
  "waiter_wait 6 20 (describe_tasks no_address_world) 0 0 = (3, 12, Inr ())
   \<and> find_eni (hd (tasks (describe_tasks no_address_world 3))) = Some ''eni-1''
   \<and> describe_network_interfaces no_address_world ''eni-1'' = [\<lparr>Association = None\<rparr>]
   \<and> snd (get_ip_handler no_address_world example_event) =
       Inr (JObj [(''statusCode'', JInt 200), (''publicIp'', JStr ''''),
                  (''taskArn'', JStr ''arn:task/1'')])
   \<and> snd (get_ip_handler no_address_world example_event) \<noteq>
       Inr (JObj [(''statusCode'', JInt 500), (''error'', JStr ''No IP found'')])"
proof -
  have t: "tasks (describe_tasks no_address_world 3) = tasks running_response"
    by (simp add: no_address_world_def example_world_def)
  have eni: "find_eni (hd (tasks (describe_tasks no_address_world 3))) = Some ''eni-1''"
    unfolding t by (simp add: running_response_def find_eni_def)
  have ni: "describe_network_interfaces no_address_world ''eni-1'' = [\<lparr>Association = None\<rparr>]"
    by (simp add: no_address_world_def example_world_def)
  have c: "subscript example_event ''cluster'' = Inr (JStr ''minecraft'')"
    and a: "subscript example_event ''taskArn'' = Inr (JStr ''arn:task/1'')"
    by (simp_all add: example_event_def)
  have "get_ip_handler no_address_world example_event =
      (no_address_world, read_address no_address_world (JStr ''arn:task/1'') 3)"
    by (rule get_ip_handler_running [OF c a no_address_wait])
  moreover have "read_address no_address_world (JStr ''arn:task/1'') 3 =
      Inr (JObj [(''statusCode'', JInt 200), (''publicIp'', JStr ''''),
                 (''taskArn'', JStr ''arn:task/1'')])"
    unfolding read_address_def t
    by (simp add: running_response_def find_eni_def public_ip_of_def ni)
  ultimately show ?thesis using no_address_wait ni eni by simp
qed

section \<open>Properties of the snapshot trigger\<close>

lemma digit_code: "d < 10 \<Longrightarrow> (of_char (''0123456789'' ! d) :: nat) = 48 + d"
proof -
  assume "d < 10"
  then have "d = 0 \<or> d = 1 \<or> d = 2 \<or> d = 3 \<or> d = 4 \<or> d = 5 \<or> d = 6 \<or> d = 7 \<or> d = 8 \<or> d = 9"
    by arith
  then show ?thesis by (elim disjE) simp_all
qed

lemma undec_snoc: "undec (s @ [c]) = 10 * undec s + ((of_char c :: nat) - 48)"
  by (simp add: undec_def)

lemma undec_dec: "undec (dec n) = n"
proof (induction n rule: dec.induct)
  case (1 n)
  show ?case
  proof (cases "n < 10")
    case True
    then show ?thesis by (simp add: undec_def digit_code)
  next
    case False
    have "dec n = dec (n div 10) @ [''0123456789'' ! (n mod 10)]"
      using False by (subst dec.simps) simp
    with "1.IH" [OF False] show ?thesis
      by (simp add: undec_snoc digit_code del: dec.simps)
  qed
qed

lemma digits_dec: "list_all is_digit (dec n)"
proof (induction n rule: dec.induct)
  case (1 n)
  show ?case
  proof (cases "n < 10")
    case True
    then show ?thesis by (simp add: is_digit_def digit_code)
  next
    case False
    have "dec n = dec (n div 10) @ [''0123456789'' ! (n mod 10)]"
      using False by (subst dec.simps) simp
    with "1.IH" [OF False] show ?thesis
      by (simp add: is_digit_def digit_code del: dec.simps)
  qed
qed

lemma length_dec: "0 < k \<Longrightarrow> n < 10 ^ k \<Longrightarrow> length (dec n) \<le> k"
proof (induction k arbitrary: n)
  case 0
  then show ?case by simp
next
  case (Suc k)
  show ?case
  proof (cases "n < 10")
    case True
    then show ?thesis by simp
  next
    case False
    have d: "dec n = dec (n div 10) @ [''0123456789'' ! (n mod 10)]"
      using False by (subst dec.simps) simp
    from Suc.prems have lt: "n div 10 < 10 ^ k"
      by (simp add: less_mult_imp_div_less mult.commute)
    from False lt have "0 < k" by (cases k) auto
    from Suc.IH [OF this lt] d show ?thesis by (simp del: dec.simps)
  qed
qed

lemma undec_zeros: "undec (replicate m (CHR ''0'') @ s) = undec s"
  by (induction m) (simp_all add: undec_def)

lemma zpad_props:
  assumes "0 < k" "n < 10 ^ k"
  shows "length (zpad k n) = k" "list_all is_digit (zpad k n)" "undec (zpad k n) = n"
proof -
  from length_dec [OF assms] show "length (zpad k n) = k"
    by (simp add: zpad_def del: dec.simps)
  have "list_all is_digit (replicate m (CHR ''0''))" for m
    by (induction m) (simp_all add: is_digit_def)
  then show "list_all is_digit (zpad k n)"
    by (simp add: zpad_def digits_dec del: dec.simps)
  show "undec (zpad k n) = n"
    by (simp add: zpad_def undec_zeros undec_dec del: dec.simps)
qed

lemma read_digits_zpad:
  "0 < k \<Longrightarrow> n < 10 ^ k \<Longrightarrow> read_digits k (zpad k n @ rest) = Some (n, rest)"
  by (simp add: read_digits_def zpad_props)

lemma read_char_Cons: "read_char c (c # rest) = Some rest"
  by (simp add: read_char_def)

lemma fromisoformat_isoformat:
  assumes "valid_datetime t"
  shows "fromisoformat (isoformat t) = Some t"
proof -
  from assms have y: "year t < 10 ^ 4" and mo: "month t < 10 ^ 2" and d: "day t < 10 ^ 2"
    and h: "hour t < 10 ^ 2" and mi: "minute t < 10 ^ 2" and s: "second t < 10 ^ 2"
    and us: "microsecond t < 10 ^ 6"
    by (simp_all add: valid_datetime_def)
  have frac: "read_fraction (if microsecond t = 0 then [] else ''.'' @ zpad 6 (microsecond t)) =
      Some (microsecond t, [])"
    using read_digits_zpad [of 6 "microsecond t" "[]"] us
    by (simp add: read_fraction_def read_char_Cons)
  show ?thesis
    unfolding fromisoformat_def isoformat_def
    using read_digits_zpad [of 4 "year t"] read_digits_zpad [of 2 "month t"]
      read_digits_zpad [of 2 "day t"] read_digits_zpad [of 2 "hour t"]
      read_digits_zpad [of 2 "minute t"] read_digits_zpad [of 2 "second t"]
      y mo d h mi s frac
    by (simp add: read_char_Cons split del: if_split)
qed

lemma strip_key_backup_key: "strip_key (backup_key_of s) = Some s"
  by (simp add: strip_key_def backup_key_of_def)

text \<open>
  Claim C9. For every valid timestamp of the clock and every event with \<^verbatim>\<open>cluster\<close> and
  \<^verbatim>\<open>taskArn\<close>, the backup function returns the key \<^verbatim>\<open>backups/world-<t>.tar.gz\<close> with
  \<^verbatim>\<open><t>\<close> the ISO-8601 rendering of the timestamp, which it also returns; stripping the
  fixed prefix and suffix from the key gives that rendering back, and parsing it gives
  back the timestamp itself.
\<close>

theorem backup_key_round_trip:
  assumes "valid_datetime (utcnow w)"
    and "subscript event ''cluster'' = Inr cluster"
    and "subscript event ''taskArn'' = Inr task_arn"
  shows "backup_handler w event =
           (w, Inr (JObj [(''statusCode'', JInt 200),
                          (''backupKey'',
                           JStr (''backups/world-'' @ isoformat (utcnow w) @ ''.tar.gz'')),
                          (''timestamp'', JStr (isoformat (utcnow w)))]))
       \<and> strip_key (''backups/world-'' @ isoformat (utcnow w) @ ''.tar.gz'') =
           Some (isoformat (utcnow w))
       \<and> Option.bind (strip_key (''backups/world-'' @ isoformat (utcnow w) @ ''.tar.gz''))
           fromisoformat = Some (utcnow w)"
proof -
  have key: "''backups/world-'' @ isoformat (utcnow w) @ ''.tar.gz'' =
      backup_key_of (isoformat (utcnow w))"
    by (simp add: backup_key_of_def)
  show ?thesis
    unfolding key strip_key_backup_key
    using assms(2,3) fromisoformat_isoformat [OF assms(1)]
    by (simp add: backup_handler_def Let_def)
qed


theorem backup_key_round_trip_witness:
  "valid_datetime (utcnow example_world)
   \<and> subscript example_event ''cluster'' = Inr (JStr ''minecraft'')
   \<and> subscript example_event ''taskArn'' = Inr (JStr ''arn:task/1'')
   \<and> backup_handler example_world example_event =
       (example_world,
        Inr (JObj [(''statusCode'', JInt 200),
                   (''backupKey'', JStr ''backups/world-2024-03-09T07:05:00.001234.tar.gz''),
                   (''timestamp'', JStr ''2024-03-09T07:05:00.001234'')]))
   \<and> strip_key ''backups/world-2024-03-09T07:05:00.001234.tar.gz'' =
       Some ''2024-03-09T07:05:00.001234''
   \<and> fromisoformat ''2024-03-09T07:05:00.001234'' = Some (utcnow example_world)"
proof -
  have v: "valid_datetime (utcnow example_world)"
    by (simp add: valid_datetime_def example_world_def)
  have c: "subscript example_event ''cluster'' = Inr (JStr ''minecraft'')"
    and a: "subscript example_event ''taskArn'' = Inr (JStr ''arn:task/1'')"
    by (simp_all add: example_event_def)
  have k: "''backups/world-'' @ ''2024-03-09T07:05:00.001234'' @ ''.tar.gz'' =
      ''backups/world-2024-03-09T07:05:00.001234.tar.gz''"
    by simp
  from backup_key_round_trip [OF v c a, unfolded example_isoformat k] v c a
  show ?thesis by auto
qed


section \<open>Properties of the stack configuration\<close>

lemma stack_config_object:
  "(case Some (JObj kvs) of None \<Rightarrow> JObj [] | Some j \<Rightarrow> if truthy j then j else JObj []) = JObj kvs"
  by simp

lemma stack_init_lookup_fails:
  assumes "map_of kvs ''server_size'' = Some v" and "lookup_server_config v = Inl e"
  shows "stack_init (Some (JObj kvs)) = ([], Inl e)"
  unfolding stack_init_def Let_def stack_config_object
  using assms by (simp split: option.splits)

lemma lookup_server_config_unknown:
  "s \<notin> {''small'', ''medium'', ''large''} \<Longrightarrow> lookup_server_config (JStr s) = Inl (KeyError s)"
  by (simp add: server_configs_def)

lemma lookup_server_config_fails:
  "v \<notin> {JStr ''small'', JStr ''medium'', JStr ''large''} \<Longrightarrow> isl (lookup_server_config v)"
  by (cases v) (auto simp: server_configs_def)

lemma stack_init_default_size:
  assumes "map_of kvs ''server_size'' = None"
    and "map_of kvs ''hosted_zone_id'' = None \<or> (\<exists>z. map_of kvs ''hosted_zone_id'' = Some (JStr z))"
    and "map_of kvs ''domain_name'' = None \<or> (\<exists>n. map_of kvs ''domain_name'' = Some (JStr n))"
  shows "\<exists>s. stack_init (Some (JObj kvs)) = (stack_constructs, Inr s) \<and> task_cpu s = 2048 \<and>
             task_memory_limit_mib s = 4096 \<and> server_size_output s = ''small (1-5 players)''"
  unfolding stack_init_def Let_def stack_config_object
  using assms by (auto simp: server_configs_def split: option.splits)

text \<open>
  Claim C10, as amended. When the configuration gives a \<^verbatim>\<open>server_size\<close> that is a string
  other than \<^verbatim>\<open>small\<close>, \<^verbatim>\<open>medium\<close> and \<^verbatim>\<open>large\<close>, the constructor raises KeyError for
  that string with no construct declared; a null, a boolean or a number raises KeyError
  for that value, and a list or an object raises TypeError, each with no construct
  declared. When \<^verbatim>\<open>server_size\<close> is absent (and the hosted zone and the domain name are
  strings or absent), or the whole entry is absent, the stack is built with the sizing of
  \<^verbatim>\<open>small\<close>. Every value other than the three names ends in an error before the first
  construct: no other value gets a sizing.
\<close>

theorem stack_init_server_size:
  "(\<forall>kvs s. map_of kvs ''server_size'' = Some (JStr s) \<and> s \<notin> {''small'', ''medium'', ''large''} \<longrightarrow>
      stack_init (Some (JObj kvs)) = ([], Inl (KeyError s)))
   \<and> (\<forall>kvs v. map_of kvs ''server_size'' = Some v \<and>
                (v = JNull \<or> (\<exists>b. v = JBool b) \<or> (\<exists>i. v = JInt i)) \<longrightarrow>
        stack_init (Some (JObj kvs)) = ([], Inl (KeyErrorNonString v)))
   \<and> (\<forall>kvs v. map_of kvs ''server_size'' = Some v \<and> ((\<exists>xs. v = JArr xs) \<or> (\<exists>m. v = JObj m)) \<longrightarrow>
        stack_init (Some (JObj kvs)) = ([], Inl TypeError))
   \<and> (\<forall>kvs. map_of kvs ''server_size'' = None \<and>
              (map_of kvs ''hosted_zone_id'' = None \<or>
               (\<exists>z. map_of kvs ''hosted_zone_id'' = Some (JStr z))) \<and>
              (map_of kvs ''domain_name'' = None \<or>
               (\<exists>n. map_of kvs ''domain_name'' = Some (JStr n))) \<longrightarrow>
        (\<exists>s. stack_init (Some (JObj kvs)) = (stack_constructs, Inr s) \<and> task_cpu s = 2048 \<and>
             task_memory_limit_mib s = 4096 \<and> server_size_output s = ''small (1-5 players)''))
   \<and> (\<exists>s. stack_init None = (stack_constructs, Inr s) \<and> task_cpu s = 2048 \<and>
             task_memory_limit_mib s = 4096 \<and> server_size_output s = ''small (1-5 players)'')
   \<and> (\<forall>kvs v. map_of kvs ''server_size'' = Some v \<and>
                v \<notin> {JStr ''small'', JStr ''medium'', JStr ''large''} \<longrightarrow>
        fst (stack_init (Some (JObj kvs))) = [] \<and> isl (snd (stack_init (Some (JObj kvs)))))"
proof (intro conjI allI impI)
  fix kvs s
  assume "map_of kvs ''server_size'' = Some (JStr s) \<and> s \<notin> {''small'', ''medium'', ''large''}"
  then show "stack_init (Some (JObj kvs)) = ([], Inl (KeyError s))"
    using stack_init_lookup_fails lookup_server_config_unknown by blast
next
  fix kvs v
  assume "map_of kvs ''server_size'' = Some v \<and>
          (v = JNull \<or> (\<exists>b. v = JBool b) \<or> (\<exists>i. v = JInt i))"
  then have "map_of kvs ''server_size'' = Some v" "lookup_server_config v = Inl (KeyErrorNonString v)"
    by auto
  then show "stack_init (Some (JObj kvs)) = ([], Inl (KeyErrorNonString v))"
    by (rule stack_init_lookup_fails)
next
  fix kvs v
  assume "map_of kvs ''server_size'' = Some v \<and> ((\<exists>xs. v = JArr xs) \<or> (\<exists>m. v = JObj m))"
  then have "map_of kvs ''server_size'' = Some v" "lookup_server_config v = Inl TypeError"
    by auto
  then show "stack_init (Some (JObj kvs)) = ([], Inl TypeError)"
    by (rule stack_init_lookup_fails)
next
  fix kvs
  assume "map_of kvs ''server_size'' = None \<and>
          (map_of kvs ''hosted_zone_id'' = None \<or>
           (\<exists>z. map_of kvs ''hosted_zone_id'' = Some (JStr z))) \<and>
          (map_of kvs ''domain_name'' = None \<or>
           (\<exists>n. map_of kvs ''domain_name'' = Some (JStr n)))"
  then show "\<exists>s. stack_init (Some (JObj kvs)) = (stack_constructs, Inr s) \<and> task_cpu s = 2048 \<and>
             task_memory_limit_mib s = 4096 \<and> server_size_output s = ''small (1-5 players)''"
    using stack_init_default_size by blast
next
  show "\<exists>s. stack_init None = (stack_constructs, Inr s) \<and> task_cpu s = 2048 \<and>
             task_memory_limit_mib s = 4096 \<and> server_size_output s = ''small (1-5 players)''"
    by (simp add: stack_init_def Let_def server_configs_def)
next
  fix kvs v
  assume a: "map_of kvs ''server_size'' = Some v \<and>
             v \<notin> {JStr ''small'', JStr ''medium'', JStr ''large''}"
  then obtain e where "lookup_server_config v = Inl e"
    using lookup_server_config_fails [of v] by (cases "lookup_server_config v") auto
  with a have "stack_init (Some (JObj kvs)) = ([], Inl e)"
    using stack_init_lookup_fails by blast
  then show "fst (stack_init (Some (JObj kvs))) = []" "isl (snd (stack_init (Some (JObj kvs))))"
    by simp_all
qed

theorem stack_init_server_size_witness:
  "stack_init (Some (JObj [(''server_size'', JStr ''huge'')])) = ([], Inl (KeyError ''huge''))
   \<and> stack_init (Some (JObj [(''enable_route53'', JBool True), (''server_size'', JNull)])) =
       ([], Inl (KeyErrorNonString JNull))
   \<and> stack_init (Some (JObj [(''server_size'', JObj [])])) = ([], Inl TypeError)
   \<and> fst (stack_init (Some (JObj [(''enable_route53'', JBool True),
                                   (''hosted_zone_id'', JStr ''Z1''),
                                   (''domain_name'', JStr ''mc.example.com'')]))) = stack_constructs
   \<and> fst (stack_init None) = stack_constructs"
proof -
  note t = stack_init_server_size
  note c1 = t [THEN conjunct1, rule_format]
  note c2 = t [THEN conjunct2, THEN conjunct1, rule_format]
  note c3 = t [THEN conjunct2, THEN conjunct2, THEN conjunct1, rule_format]
  note c4 = t [THEN conjunct2, THEN conjunct2, THEN conjunct2, THEN conjunct1, rule_format]
  note c5 = t [THEN conjunct2, THEN conjunct2, THEN conjunct2, THEN conjunct2, THEN conjunct1]
  have 1: "stack_init (Some (JObj [(''server_size'', JStr ''huge'')])) =
      ([], Inl (KeyError ''huge''))"
    by (rule c1) simp
  have 2: "stack_init (Some (JObj [(''enable_route53'', JBool True), (''server_size'', JNull)])) =
      ([], Inl (KeyErrorNonString JNull))"
    by (rule c2 [where v = JNull]) simp
  have 3: "stack_init (Some (JObj [(''server_size'', JObj [])])) = ([], Inl TypeError)"
    by (rule c3 [where v = "JObj []"]) simp
  have "\<exists>s. stack_init (Some (JObj [(''enable_route53'', JBool True),
                                   (''hosted_zone_id'', JStr ''Z1''),
                                   (''domain_name'', JStr ''mc.example.com'')])) =
             (stack_constructs, Inr s) \<and> task_cpu s = 2048 \<and>
             task_memory_limit_mib s = 4096 \<and> server_size_output s = ''small (1-5 players)''"
    by (rule c4) simp
  then have 4: "fst (stack_init (Some (JObj [(''enable_route53'', JBool True),
                                   (''hosted_zone_id'', JStr ''Z1''),
                                   (''domain_name'', JStr ''mc.example.com'')]))) = stack_constructs"
    by auto
  from c5 have 5: "fst (stack_init None) = stack_constructs" by auto
  from 1 2 3 4 5 show ?thesis by simp
qed

text \<open>
  Claim C10 as stated fails: with a list as \<^verbatim>\<open>server_size\<close> the constructor raises
  TypeError, which is not a key-lookup error.
\<close>

theorem stack_init_unhashable_server_size:
  "stack_init (Some (JObj [(''server_size'', JArr [JStr ''small''])])) = ([], Inl TypeError)
   \<and> JArr [JStr ''small''] \<notin> {JStr ''small'', JStr ''medium'', JStr ''large''}
   \<and> (\<forall>k. snd (stack_init (Some (JObj [(''server_size'', JArr [JStr ''small''])]))) \<noteq>
            Inl (KeyError k))
   \<and> (\<forall>v. snd (stack_init (Some (JObj [(''server_size'', JArr [JStr ''small''])]))) \<noteq>
            Inl (KeyErrorNonString v))"
  by (simp add: stack_init_def)

end
